theory Spec2Isabelle
  imports Complex_Main "HOL-Library.Log_Nat"
begin

section \<open>SeniorCare backend (backend/app.py): data model\<close>

text \<open>
  The module reads five settings from the environment; an unset variable is the empty
  string, which Python treats as false.
\<close>

record config =
  LINGO_API_KEY :: string
  LINGO_PROJECT_ID :: string
  OPENAI_API_KEY :: string
  SUPABASE_URL :: string
  SUPABASE_ANON_KEY :: string

text \<open>
  Rows of the three tables the endpoints touch. The column names of the source carry a
  prefix here (\<open>s_\<close>, \<open>m_\<close>, \<open>l_\<close>), since \<open>id\<close> and \<open>name\<close> occur in more than one table.
  \<open>senior_id\<close> of a medication is \<open>Optional[int]\<close> in \<open>MedicationRequest\<close>.
\<close>

record senior =
  s_id :: int
  s_name :: string
  s_emergency_info :: string

record medication =
  m_id :: int
  m_name :: string
  m_dosage :: string
  m_time :: string
  m_frequency :: string
  m_pill_color :: string
  m_senior_id :: "int option"
  m_is_active :: bool

record reminder_log =
  l_id :: int
  l_medication_id :: int
  l_status :: string
  l_taken_on :: string
  l_taken_at :: string

text \<open>
  The store behind the persistence adapter: the rows of each table in the order the store
  returns them, and the sequence that numbers new reminder logs.
\<close>

record database =
  seniors :: "senior list"
  medications :: "medication list"
  reminder_logs :: "reminder_log list"
  next_log_id :: int

record AcknowledgeRequest =
  medication_id :: int
  status :: string

section \<open>The persistence adapter\<close>

datatype exn = AttributeError string | APIError string | IndexError string | ImportError string

fun str_exn :: "exn \<Rightarrow> string" where
  "str_exn (AttributeError msg) = msg"
| "str_exn (APIError msg) = msg"
| "str_exn (IndexError msg) = msg"
| "str_exn (ImportError msg) = msg"

datatype http_error = HTTPException nat string

text \<open>
  \<open>supabase\<close> is the module-level client: \<open>None\<close> unless both credentials are set
  (lines 28-33 of the source).
\<close>

definition supabase :: "config \<Rightarrow> database \<Rightarrow> database option" where
  "supabase cfg db =
     (if SUPABASE_URL cfg \<noteq> [] \<and> SUPABASE_ANON_KEY cfg \<noteq> [] then Some db else None)"

text \<open>
  With no client the module also creates its in-memory fallback (lines 36-42): one senior
  record and two empty lists. No endpoint reads or writes them.
\<close>

record in_memory =
  senior_record :: senior
  medication_list :: "medication list"
  reminder_log_list :: "reminder_log list"

definition in_memory_fallback :: "config \<Rightarrow> in_memory option" where
  "in_memory_fallback cfg =
     (if SUPABASE_URL cfg \<noteq> [] \<and> SUPABASE_ANON_KEY cfg \<noteq> [] then None
      else Some \<lparr>senior_record =
                   \<lparr>s_id = 1, s_name = ''Demo Senior'',
                    s_emergency_info = ''Call 911 if unconscious.''\<rparr>,
                 medication_list = [], reminder_log_list = []\<rparr>)"

definition none_has_no_table :: string where
  "none_has_no_table =
     [CHR 0x27] @ ''NoneType'' @ [CHR 0x27] @ '' object has no attribute '' @
     [CHR 0x27] @ ''table'' @ [CHR 0x27]"

text \<open>
  One \<open>supabase.table(...)...execute()\<close> call. With no client, \<open>supabase.table\<close> is an
  attribute access on \<open>None\<close> and raises before anything is sent. Otherwise the call can
  fail at the store or on the way to it: \<open>net k\<close> is \<open>Some msg\<close> when the \<open>k\<close>-th call of
  the request being served raises with message \<open>msg\<close>, and \<open>None\<close> when it goes through.
  A call that raises leaves the store as it was.
\<close>

type_synonym net = "nat \<Rightarrow> string option"

definition execute :: "database option \<Rightarrow> net \<Rightarrow> nat \<Rightarrow> (database \<Rightarrow> 'a) \<Rightarrow> exn + 'a" where
  "execute sb net k q =
     (case sb of
        None \<Rightarrow> Inl (AttributeError none_has_no_table)
      | Some db \<Rightarrow> (case net k of Some msg \<Rightarrow> Inl (APIError msg) | None \<Rightarrow> Inr (q db)))"

text \<open>\<open>.single()\<close>: the row when the query matches exactly one, an error otherwise.\<close>

definition single :: "'a list \<Rightarrow> exn + 'a" where
  "single rows = (case rows of [r] \<Rightarrow> Inr r | _ \<Rightarrow> Inl (APIError ''PGRST116''))"

text \<open>The queries the endpoints build.\<close>

definition select_senior :: "int \<Rightarrow> database \<Rightarrow> senior list" where
  "select_senior senior_id db = filter (\<lambda>s. s_id s = senior_id) (seniors db)"

definition select_active_medications :: "int \<Rightarrow> database \<Rightarrow> medication list" where
  "select_active_medications senior_id db =
     filter (\<lambda>m. m_senior_id m = Some senior_id \<and> m_is_active m) (medications db)"

definition select_logs_on :: "string \<Rightarrow> database \<Rightarrow> reminder_log list" where
  "select_logs_on today db = filter (\<lambda>l. l_taken_on l = today) (reminder_logs db)"

definition select_taken_logs_on :: "string \<Rightarrow> database \<Rightarrow> reminder_log list" where
  "select_taken_logs_on today db =
     filter (\<lambda>l. l_taken_on l = today \<and> l_status l = ''taken'') (reminder_logs db)"

text \<open>\<open>update({"is_active": False}).eq("id", med_id)\<close>: every matching row, possibly none.\<close>

definition update_inactive :: "int \<Rightarrow> database \<Rightarrow> database" where
  "update_inactive med_id db =
     db\<lparr>medications :=
          map (\<lambda>m. if m_id m = med_id then m\<lparr>m_is_active := False\<rparr> else m) (medications db)\<rparr>"

text \<open>
  \<open>upsert(data, on_conflict="medication_id,taken_on")\<close>: a row with the same medication
  and date takes the new status and timestamp and keeps its id; with no such row, a new
  one is appended under the next id. The rows written are returned.
\<close>

definition same_key :: "int \<Rightarrow> string \<Rightarrow> reminder_log \<Rightarrow> bool" where
  "same_key mid day l = (l_medication_id l = mid \<and> l_taken_on l = day)"

text \<open>The uniqueness the conflict target stands for: no two logs agree on medication and date.\<close>

definition unique_keys :: "reminder_log list \<Rightarrow> bool" where
  "unique_keys logs = distinct (map (\<lambda>l. (l_medication_id l, l_taken_on l)) logs)"

definition upsert_reminder_log ::
  "int \<Rightarrow> string \<Rightarrow> string \<Rightarrow> string \<Rightarrow> database \<Rightarrow> reminder_log list \<times> database" where
  "upsert_reminder_log mid st day ts db =
     (if list_ex (same_key mid day) (reminder_logs db) then
        (let logs' = map (\<lambda>l. if same_key mid day l
                               then l\<lparr>l_status := st, l_taken_at := ts\<rparr> else l)
                         (reminder_logs db)
         in (filter (same_key mid day) logs', db\<lparr>reminder_logs := logs'\<rparr>))
      else
        (let row = \<lparr>l_id = next_log_id db, l_medication_id = mid, l_status = st,
                    l_taken_on = day, l_taken_at = ts\<rparr>
         in ([row], db\<lparr>reminder_logs := reminder_logs db @ [row],
                       next_log_id := next_log_id db + 1\<rparr>)))"

section \<open>Endpoints on the store\<close>

subsection \<open>Senior profile\<close>

definition fallback_senior :: senior where
  "fallback_senior =
     \<lparr>s_id = 1, s_name = ''Senior User'',
      s_emergency_info = ''Call 911 in case of emergency.''\<rparr>"

definition get_senior :: "config \<Rightarrow> database \<Rightarrow> net \<Rightarrow> int \<Rightarrow> senior" where
  "get_senior cfg db net senior_id =
     (case execute (supabase cfg db) net 0 (select_senior senior_id) of
        Inl e \<Rightarrow> fallback_senior
      | Inr rows \<Rightarrow> (case single rows of Inl e \<Rightarrow> fallback_senior | Inr row \<Rightarrow> row))"

subsection \<open>Medications\<close>

definition get_medications :: "config \<Rightarrow> database \<Rightarrow> net \<Rightarrow> int \<Rightarrow> medication list" where
  "get_medications cfg db net senior_id =
     (case execute (supabase cfg db) net 0 (select_active_medications senior_id) of
        Inl e \<Rightarrow> []
      | Inr rows \<Rightarrow> rows)"

datatype ack = Deleted

definition delete_medication ::
  "config \<Rightarrow> database \<Rightarrow> net \<Rightarrow> int \<Rightarrow> (http_error + ack) \<times> database" where
  "delete_medication cfg db net med_id =
     (case execute (supabase cfg db) net 0 (update_inactive med_id) of
        Inl e \<Rightarrow> (Inl (HTTPException 500 (str_exn e)), db)
      | Inr db' \<Rightarrow> (Inr Deleted, db'))"

subsection \<open>Schedule and adherence\<close>

text \<open>
  The dict comprehension \<open>{log["medication_id"]: log for log in logs_res.data}\<close>: a later
  log of the same medication replaces an earlier one.
\<close>

definition logs_by_medication :: "reminder_log list \<Rightarrow> (int \<rightharpoonup> reminder_log)" where
  "logs_by_medication logs_data =
     fold (\<lambda>log d. d(l_medication_id log \<mapsto> log)) logs_data Map.empty"

definition get_today_schedule ::
  "config \<Rightarrow> database \<Rightarrow> net \<Rightarrow> string \<Rightarrow> int \<Rightarrow> (medication \<times> reminder_log option) list" where
  "get_today_schedule cfg db net today senior_id =
     (case execute (supabase cfg db) net 0 (select_active_medications senior_id) of
        Inl e \<Rightarrow> []
      | Inr meds \<Rightarrow>
          (case execute (supabase cfg db) net 1 (select_logs_on today) of
             Inl e \<Rightarrow> []
           | Inr logs_data \<Rightarrow>
               (let logs = logs_by_medication logs_data
                in map (\<lambda>med. (med, logs (m_id med))) meds)))"

definition acknowledge_med ::
  "config \<Rightarrow> database \<Rightarrow> net \<Rightarrow> string \<Rightarrow> string \<Rightarrow> AcknowledgeRequest
     \<Rightarrow> (http_error + reminder_log) \<times> database" where
  "acknowledge_med cfg db net today now req =
     (case execute (supabase cfg db) net 0
             (upsert_reminder_log (medication_id req) (status req) today now) of
        Inl e \<Rightarrow> (Inl (HTTPException 500 (str_exn e)), db)
      | Inr (rows, db') \<Rightarrow>
          (case rows of
             [] \<Rightarrow> (Inl (HTTPException 500 (str_exn (IndexError ''list index out of range''))), db')
           | row # _ \<Rightarrow> (Inr row, db')))"

text \<open>
  Python numbers: \<open>round\<close> of an \<open>int\<close> is an \<open>int\<close>, \<open>round\<close> of a \<open>float\<close> a
  \<open>float\<close>. A float is an IEEE 754 double, held here as the rational it stands for.
  \<open>fl x\<close> is the double nearest to \<open>x\<close>, a tie going to the even significand: with
  \<open>2 ^ e \<le> \<bar>x\<bar> < 2 ^ (e + 1)\<close> the doubles around \<open>x\<close> are the multiples of
  \<open>2 ^ (e - 52)\<close>. The exponent is not bounded: quotients of list lengths and their
  hundredfold neither overflow nor fall into the subnormal range.
\<close>

datatype pynum = PyInt int | PyFloat rat

fun num_val :: "pynum \<Rightarrow> rat" where
  "num_val (PyInt n) = of_int n"
| "num_val (PyFloat x) = x"

definition round_half_even :: "rat \<Rightarrow> int" where
  "round_half_even x =
     (let f = \<lfloor>x\<rfloor>; d = x - of_int f
      in if d < 1 / 2 then f else if 1 / 2 < d then f + 1
         else if even f then f else f + 1)"

text \<open>For positive \<open>x\<close>, the \<open>e\<close> with \<open>2 ^ e \<le> x < 2 ^ (e + 1)\<close>.\<close>

definition exponent :: "rat \<Rightarrow> int" where
  "exponent x =
     (case quotient_of x of (p, q) \<Rightarrow>
        (let e = bitlen p - bitlen q in if 2 powi e \<le> x then e else e - 1))"

definition fl :: "rat \<Rightarrow> rat" where
  "fl x =
     (if x = 0 then 0
      else (let ulp = 2 powi (exponent \<bar>x\<bar> - 52)
            in of_int (round_half_even (x / ulp)) * ulp))"

text \<open>Half the distance between \<open>1\<close> and the next double: the relative error of \<open>fl\<close>.\<close>

definition unit_roundoff :: rat where
  "unit_roundoff = 1 / 2 ^ 53"

text \<open>
  \<open>a / b\<close> on two \<open>int\<close>s is the correctly rounded quotient; \<open>x * 100\<close> takes \<open>100\<close> to
  the double \<open>100.0\<close> and rounds the product.
\<close>

definition py_truediv :: "nat \<Rightarrow> nat \<Rightarrow> rat" where
  "py_truediv a b = fl (of_nat a / of_nat b)"

definition py_mul :: "rat \<Rightarrow> int \<Rightarrow> rat" where
  "py_mul x n = fl (x * of_int n)"

text \<open>
  \<open>round(x, 1)\<close> on a float: the exact value of \<open>x\<close> is rounded to the nearest tenth, a
  tie going to the even tenth, and the result is the double nearest to that tenth.
\<close>

fun py_round1 :: "pynum \<Rightarrow> pynum" where
  "py_round1 (PyInt n) = PyInt n"
| "py_round1 (PyFloat x) = PyFloat (fl (of_int (round_half_even (x * 10)) / 10))"

record summary =
  total :: nat
  taken :: nat
  percentage :: pynum

definition get_adherence_summary ::
  "config \<Rightarrow> database \<Rightarrow> net \<Rightarrow> string \<Rightarrow> int \<Rightarrow> summary" where
  "get_adherence_summary cfg db net today senior_id =
     (case execute (supabase cfg db) net 0 (select_active_medications senior_id) of
        Inl e \<Rightarrow> \<lparr>total = 0, taken = 0, percentage = PyInt 0\<rparr>
      | Inr meds \<Rightarrow>
          (let total_meds = length meds in
           case execute (supabase cfg db) net 1 (select_taken_logs_on today) of
             Inl e \<Rightarrow> \<lparr>total = 0, taken = 0, percentage = PyInt 0\<rparr>
           | Inr logs_data \<Rightarrow>
               (let taken_meds = length logs_data;
                    percentage = (if total_meds > 0
                                  then PyFloat (py_mul (py_truediv taken_meds total_meds) 100)
                                  else PyInt 100)
                in \<lparr>total = total_meds, taken = taken_meds,
                    percentage = py_round1 percentage\<rparr>)))"

section \<open>Translation and simplification pipeline\<close>

text \<open>
  The texts that pass through the pipeline are Python \<open>str\<close> values of any script: they
  are lists of Unicode code points (what \<open>ord\<close> gives, an \<open>int\<close>) here. \<open>ustr\<close> reads a literal of the source, which is
  ASCII, as such a list.
\<close>

type_synonym pystr = "int list"

definition ustr :: "string \<Rightarrow> pystr" where
  "ustr s = map of_char s"

text \<open>
  \<open>str.isspace\<close> on one code point: the characters of general category \<open>Zs\<close> or of
  bidirectional class \<open>WS\<close>, \<open>B\<close> or \<open>S\<close>. \<open>str.strip()\<close> removes them from both
  ends.
\<close>

definition isspace :: "int \<Rightarrow> bool" where
  "isspace c =
     (c \<in> {0x09, 0x0A, 0x0B, 0x0C, 0x0D, 0x1C, 0x1D, 0x1E, 0x1F, 0x20, 0x85, 0xA0,
            0x1680, 0x2028, 0x2029, 0x202F, 0x205F, 0x3000}
      \<or> (0x2000 \<le> c \<and> c \<le> 0x200A))"

definition strip :: "pystr \<Rightarrow> pystr" where
  "strip s = rev (dropWhile isspace (rev (dropWhile isspace s)))"

text \<open>
  The two providers are outside the program. A chat completion either raises or yields
  the content of the first choice; an HTTP post either raises or yields a status code and
  a body, which is a JSON object with string members or something \<open>r.json()\<close> and
  \<open>data.get\<close> cannot read (\<open>None\<close>). \<open>openai_sdk\<close> says whether
  \<open>from openai import OpenAI\<close> and the construction of the client go through.
\<close>

datatype http_outcome = HttpRaises string | HttpResponse nat "(string \<rightharpoonup> pystr) option"

record providers =
  openai_sdk :: bool
  chat_completions :: "string \<Rightarrow> pystr \<Rightarrow> rat \<Rightarrow> exn + pystr"
  lingo_post :: "string \<Rightarrow> string \<Rightarrow> pystr \<Rightarrow> pystr \<Rightarrow> http_outcome"

text \<open>The calls a request makes to the providers, in the order it makes them.\<close>

datatype call =
    ChatCompletion string pystr rat
  | LingoPost string string pystr pystr

text \<open>Python's \<open>a or b\<close> on values that are a string or \<open>None\<close>.\<close>

fun truthy :: "pystr option \<Rightarrow> bool" where
  "truthy None = False"
| "truthy (Some s) = (s \<noteq> [])"

definition py_or :: "pystr option \<Rightarrow> pystr option \<Rightarrow> pystr option" where
  "py_or a b = (if truthy a then a else b)"

definition call_lingo_translate ::
  "config \<Rightarrow> providers \<Rightarrow> pystr \<Rightarrow> pystr \<Rightarrow> pystr option \<times> call list" where
  "call_lingo_translate cfg ext text target =
     (if LINGO_API_KEY cfg = [] \<or> LINGO_PROJECT_ID cfg = [] then (None, [])
      else
        (let url = ''https://api.lingo.dev/v1/projects/'' @ LINGO_PROJECT_ID cfg @ ''/translate'';
             auth = ''Bearer '' @ LINGO_API_KEY cfg
         in (case lingo_post ext url auth text target of
               HttpRaises e \<Rightarrow> None
             | HttpResponse status_code body \<Rightarrow>
                 (if status_code = 200 then
                    (case body of
                       None \<Rightarrow> None
                     | Some data \<Rightarrow>
                         py_or (py_or (data ''translation'') (data ''translatedText''))
                               (data ''result''))
                  else None),
             [LingoPost url auth text target])))"

definition nl :: pystr where
  "nl = [0x0A]"

definition simplify_prompt :: "pystr \<Rightarrow> pystr" where
  "simplify_prompt text =
     ustr ''You are a warm, caring health assistant. Simplify this message for a senior. '' @
     ustr ''Use gentle, clear, 1-syllable words where possible. Under 10 words.'' @ nl @ nl @
     ustr ''Message: '' @ text @ nl @ nl @ ustr ''Simplified English:''"

definition no_module_named_openai :: string where
  "no_module_named_openai = ''No module named '' @ [CHR 0x27] @ ''openai'' @ [CHR 0x27]"

definition openai_simplify ::
  "config \<Rightarrow> providers \<Rightarrow> pystr \<Rightarrow> (exn + pystr) \<times> call list" where
  "openai_simplify cfg ext text =
     (if OPENAI_API_KEY cfg = [] then (Inr text, [])
      else if \<not> openai_sdk ext then (Inl (ImportError no_module_named_openai), [])
      else
        (let prompt = simplify_prompt text
         in (case chat_completions ext ''gpt-4o-mini'' prompt (2 / 10) of
               Inl e \<Rightarrow> Inr text
             | Inr content \<Rightarrow> Inr (strip content),
             [ChatCompletion ''gpt-4o-mini'' prompt (2 / 10)])))"

definition language_names :: "(string \<times> string) list" where
  "language_names =
     [(''hi'', ''Hindi''), (''ta'', ''Tamil''), (''te'', ''Telugu''), (''bn'', ''Bengali''),
      (''ml'', ''Malayalam''), (''mr'', ''Marathi''), (''or'', ''Odia''), (''es'', ''Spanish''),
      (''fr'', ''French''), (''ar'', ''Arabic''), (''en'', ''English'')]"

text \<open>\<open>language_names.get(target, target)\<close>: the keys of the table are ASCII.\<close>

definition translate_prompt :: "pystr \<Rightarrow> pystr \<Rightarrow> pystr" where
  "translate_prompt text target =
     (let target_name =
            (case map_of (map (\<lambda>(code, name). (ustr code, ustr name)) language_names) target of
               Some n \<Rightarrow> n
             | None \<Rightarrow> target)
      in ustr ''Translate this health message into '' @ target_name @
         ustr '' for a senior. Be very respectful and clear.'' @ nl @ nl @
         ustr ''Message: '' @ text @ nl @ nl @ ustr ''Translation:'')"

definition openai_translate ::
  "config \<Rightarrow> providers \<Rightarrow> pystr \<Rightarrow> pystr \<Rightarrow> (exn + pystr) \<times> call list" where
  "openai_translate cfg ext text target =
     (if OPENAI_API_KEY cfg = [] then (Inr text, [])
      else if \<not> openai_sdk ext then (Inl (ImportError no_module_named_openai), [])
      else
        (let prompt = translate_prompt text target
         in (case chat_completions ext ''gpt-4o-mini'' prompt (3 / 10) of
               Inl e \<Rightarrow> Inr text
             | Inr content \<Rightarrow> Inr (strip content),
             [ChatCompletion ''gpt-4o-mini'' prompt (3 / 10)])))"

record TranslateRequest =
  req_text :: pystr
  req_target_lang :: pystr

record translation =
  translated_text :: pystr
  out_target_lang :: pystr
  provider :: string
  quality :: "string option"

text \<open>
  The endpoint. \<open>openai_simplify\<close> is called outside the \<open>try\<close>: what it raises leaves
  the handler and the framework answers 500. The second component lists the provider
  calls made.
\<close>

definition translate ::
  "config \<Rightarrow> providers \<Rightarrow> TranslateRequest \<Rightarrow> (http_error + translation) \<times> call list" where
  "translate cfg ext req =
     (let text = strip (req_text req); target = strip (req_target_lang req) in
      if text = [] then (Inl (HTTPException 400 ''Text is required.''), [])
      else
        (case openai_simplify cfg ext text of
           (Inl e, c1) \<Rightarrow> (Inl (HTTPException 500 ''Internal Server Error''), c1)
         | (Inr simplified, c1) \<Rightarrow>
             (case call_lingo_translate cfg ext simplified target of
                (translation, c2) \<Rightarrow>
                  (if truthy translation then
                     (Inr \<lparr>translated_text = (case translation of Some t \<Rightarrow> t | None \<Rightarrow> []),
                           out_target_lang = target, provider = ''lingo.dev'',
                           quality = Some ''senior-simplified''\<rparr>, c1 @ c2)
                   else
                     (case openai_translate cfg ext simplified target of
                        (Inr translation, c3) \<Rightarrow>
                          (Inr \<lparr>translated_text = translation, out_target_lang = target,
                                provider = ''openai'',
                                quality = Some ''senior-simplified''\<rparr>, c1 @ c2 @ c3)
                      | (Inl e, c3) \<Rightarrow>
                          (Inr \<lparr>translated_text = text, out_target_lang = target,
                                provider = ''none'', quality = None\<rparr>, c1 @ c2 @ c3))))))"

section \<open>Example configurations and stores\<close>

definition cfg_unset :: config where
  "cfg_unset = \<lparr>LINGO_API_KEY = [], LINGO_PROJECT_ID = [], OPENAI_API_KEY = [],
                 SUPABASE_URL = [], SUPABASE_ANON_KEY = []\<rparr>"

definition cfg_store :: config where
  "cfg_store = cfg_unset\<lparr>SUPABASE_URL := ''https://demo.supabase.co'',
                          SUPABASE_ANON_KEY := ''anon-key''\<rparr>"

definition net_ok :: net where
  "net_ok = (\<lambda>k. None)"

definition net_down :: net where
  "net_down = (\<lambda>k. Some ''connection refused'')"

definition pill :: "int \<Rightarrow> string \<Rightarrow> int \<Rightarrow> bool \<Rightarrow> medication" where
  "pill i n sid act =
     \<lparr>m_id = i, m_name = n, m_dosage = ''1'', m_time = ''08:00'', m_frequency = ''daily'',
      m_pill_color = ''white'', m_senior_id = Some sid, m_is_active = act\<rparr>"

definition entry :: "int \<Rightarrow> int \<Rightarrow> string \<Rightarrow> string \<Rightarrow> reminder_log" where
  "entry i mid st day =
     \<lparr>l_id = i, l_medication_id = mid, l_status = st, l_taken_on = day,
      l_taken_at = day @ ''T08:05:00''\<rparr>"

definition db_two_seniors :: database where
  "db_two_seniors =
     \<lparr>seniors = [\<lparr>s_id = 1, s_name = ''Asha'', s_emergency_info = ''Call Ravi''\<rparr>,
                 \<lparr>s_id = 2, s_name = ''Bela'', s_emergency_info = ''Call Mina''\<rparr>],
      medications = [pill 1 ''Aspirin'' 1 True, pill 2 ''Metformin'' 2 True,
                     pill 3 ''Statin'' 2 True, pill 4 ''Atenolol'' 2 True,
                     pill 5 ''Warfarin'' 1 False],
      reminder_logs = [entry 1 2 ''taken'' ''2026-11-04'', entry 2 3 ''taken'' ''2026-11-04'',
                       entry 3 4 ''taken'' ''2026-11-03''],
      next_log_id = 4\<rparr>"

definition db_eighty :: database where
  "db_eighty =
     \<lparr>seniors = [\<lparr>s_id = 1, s_name = ''Asha'', s_emergency_info = ''Call Ravi''\<rparr>],
      medications = map (\<lambda>i. pill (int i) ''Aspirin'' 1 True) [1..<81],
      reminder_logs = map (\<lambda>i. entry (int i) (int i) ''taken'' ''2026-11-04'') [1..<24],
      next_log_id = 24\<rparr>"

definition db_one_medication :: database where
  "db_one_medication =
     \<lparr>seniors = [\<lparr>s_id = 1, s_name = ''Asha'', s_emergency_info = ''Call Ravi''\<rparr>],
      medications = [pill 7 ''Aspirin'' 1 True],
      reminder_logs = [],
      next_log_id = 1\<rparr>"

definition cfg_llm :: config where
  "cfg_llm = cfg_unset\<lparr>OPENAI_API_KEY := ''sk-demo''\<rparr>"

definition cfg_all :: config where
  "cfg_all = cfg_llm\<lparr>LINGO_API_KEY := ''lingo-key'', LINGO_PROJECT_ID := ''p1''\<rparr>"

text \<open>A reply in Devanagari.\<close>

definition hindi_reply :: pystr where
  "hindi_reply = [0x0926, 0x0935, 0x093E, 0x0020, 0x0932, 0x0947, 0x0902]"

definition ext_demo :: providers where
  "ext_demo =
     \<lparr>openai_sdk = True,
      chat_completions = (\<lambda>model prompt temperature.
         if temperature = 2 / 10 then Inr (ustr ''Take one pill now. '')
         else Inr (ustr '' LLM-HI '')),
      lingo_post = (\<lambda>url auth text target.
         HttpResponse 200 (Some [''translation'' \<mapsto> [], ''translatedText'' \<mapsto> hindi_reply]))\<rparr>"

definition ext_lingo_503 :: providers where
  "ext_lingo_503 =
     ext_demo\<lparr>lingo_post := (\<lambda>url auth text target.
        HttpResponse 503 (Some [''translation'' \<mapsto> hindi_reply]))\<rparr>"

definition ext_blank :: providers where
  "ext_blank = ext_demo\<lparr>chat_completions := (\<lambda>model prompt temperature. Inr (ustr ''  ''))\<rparr>"

definition req_demo :: TranslateRequest where
  "req_demo = \<lparr>req_text = 0xA0 # ustr '' Please take one pill now '' @ [0x2003],
                req_target_lang = ustr ''hi''\<rparr>"


section \<open>Properties\<close>

lemma round_half_even_close: "\<bar>of_int (round_half_even x) - x\<bar> \<le> 1 / 2"
  unfolding round_half_even_def Let_def
  by (auto simp: abs_if not_less) linarith+

lemma execute_ok:
  "SUPABASE_URL cfg \<noteq> [] \<Longrightarrow> SUPABASE_ANON_KEY cfg \<noteq> [] \<Longrightarrow> net k = None
    \<Longrightarrow> execute (supabase cfg db) net k q = Inr (q db)"
  by (simp add: execute_def supabase_def)

lemma execute_unconfigured:
  "SUPABASE_URL cfg = [] \<or> SUPABASE_ANON_KEY cfg = []
    \<Longrightarrow> execute (supabase cfg db) net k q = Inl (AttributeError none_has_no_table)"
  by (auto simp: execute_def supabase_def)

lemma exponent_le:
  assumes "0 < x"
  shows "2 powi exponent x \<le> x"
proof -
  obtain p q where pq: "quotient_of x = (p, q)" by (cases "quotient_of x")
  then have q: "0 < q" and x: "x = of_int p / of_int q"
    using quotient_of_denom_pos quotient_of_div by auto
  with assms have p: "0 < p" by (simp add: zero_less_divide_iff)
  let ?e = "bitlen p - bitlen q"
  show ?thesis
  proof (cases "2 powi ?e \<le> x")
    case True
    then show ?thesis by (simp add: exponent_def pq)
  next
    case False
    have bp: "(2::rat) powi (bitlen p - 1) \<le> of_int p"
    proof -
      from bitlen_bounds [OF p] have "2 ^ nat (bitlen p - 1) \<le> p" by simp
      then have "(of_int (2 ^ nat (bitlen p - 1)) :: rat) \<le> of_int p" by (simp only: of_int_le_iff)
      moreover from p have "1 \<le> bitlen p"
        using bitlen_eq_zero_iff [of p] bitlen_nonneg [of p] by linarith
      ultimately show ?thesis by (simp add: power_int_def)
    qed
    have bq: "of_int q \<le> (2::rat) powi bitlen q"
    proof -
      from bitlen_bounds [OF q] have "q < 2 ^ nat (bitlen q)" by simp
      then have "(of_int q :: rat) < of_int (2 ^ nat (bitlen q))" by (simp only: of_int_less_iff)
      then show ?thesis using bitlen_nonneg [of q] by (simp add: power_int_def)
    qed
    have "(2::rat) powi (?e - 1) = 2 powi (bitlen p - 1) / 2 powi bitlen q"
      by (simp add: power_int_diff)
    also have "\<dots> \<le> of_int p / 2 powi bitlen q"
      using bp by (simp add: divide_right_mono)
    also have "\<dots> \<le> of_int p / of_int q"
      using bq p q by (simp add: divide_left_mono)
    also have "\<dots> = x" by (simp only: x)
    finally show ?thesis using False by (simp add: exponent_def pq)
  qed
qed

lemma fl_error: "\<bar>fl x - x\<bar> \<le> \<bar>x\<bar> / 2 ^ 53"
proof (cases "x = 0")
  case True
  then show ?thesis by (simp add: fl_def)
next
  case False
  let ?e = "exponent \<bar>x\<bar>"
  let ?ulp = "(2::rat) powi (?e - 52)"
  have ulp: "0 < ?ulp" by simp
  from False have le: "2 powi ?e \<le> \<bar>x\<bar>" by (intro exponent_le) simp
  have "\<bar>of_int (round_half_even (x / ?ulp)) - x / ?ulp\<bar> \<le> 1 / 2"
    by (rule round_half_even_close)
  then have "\<bar>of_int (round_half_even (x / ?ulp)) - x / ?ulp\<bar> * ?ulp \<le> 1 / 2 * ?ulp"
    using ulp by (simp only: mult_le_cancel_right_pos)
  moreover have "\<bar>of_int (round_half_even (x / ?ulp)) - x / ?ulp\<bar> * ?ulp
        = \<bar>of_int (round_half_even (x / ?ulp)) * ?ulp - x\<bar>"
  proof -
    have "\<bar>of_int (round_half_even (x / ?ulp)) - x / ?ulp\<bar> * \<bar>?ulp\<bar>
        = \<bar>(of_int (round_half_even (x / ?ulp)) - x / ?ulp) * ?ulp\<bar>"
      by (simp only: abs_mult)
    also have "(of_int (round_half_even (x / ?ulp)) - x / ?ulp) * ?ulp
        = of_int (round_half_even (x / ?ulp)) * ?ulp - x"
      using ulp by (simp add: field_simps)
    finally show ?thesis using ulp by simp
  qed
  moreover have "1 / 2 * ?ulp = 2 powi ?e / 2 ^ 53"
    by (simp add: power_int_diff)
  ultimately have "\<bar>fl x - x\<bar> \<le> 2 powi ?e / 2 ^ 53"
    using False by (simp add: fl_def Let_def)
  also have "\<dots> \<le> \<bar>x\<bar> / 2 ^ 53" using le by (simp add: divide_right_mono)
  finally show ?thesis .
qed


lemma fl_relative_error: "\<bar>fl x - x\<bar> \<le> \<bar>x\<bar> * unit_roundoff"
  using fl_error [of x] by (simp add: unit_roundoff_def)

lemma unit_roundoff_bounds: "0 \<le> unit_roundoff" "unit_roundoff \<le> 1"
  by (simp_all add: unit_roundoff_def)

lemma relative_error_compose:
  fixes q a x eps :: rat
  assumes q: "0 \<le> q" and e0: "0 \<le> eps" and e1: "eps \<le> 1"
    and a: "\<bar>a - q\<bar> \<le> \<bar>q\<bar> * eps"
    and x: "\<bar>x - a * 100\<bar> \<le> \<bar>a * 100\<bar> * eps"
  shows "\<bar>x - q * 100\<bar> \<le> q * 100 * (3 * eps)"
proof -
  define d where "d = q * eps"
  have d0: "0 \<le> d" unfolding d_def using q e0 by (rule mult_nonneg_nonneg)
  from a q have a': "\<bar>a - q\<bar> \<le> d" by (simp add: d_def)
  then have "\<bar>a\<bar> \<le> q + d" using q by linarith
  then have "\<bar>a\<bar> * 100 \<le> (q + d) * 100" by simp
  moreover have "\<bar>a * 100\<bar> = \<bar>a\<bar> * 100" by (simp add: abs_mult)
  ultimately have "\<bar>a * 100\<bar> * eps \<le> (q + d) * 100 * eps"
    using e0 by (simp only: mult_right_mono)
  with x have x': "\<bar>x - a * 100\<bar> \<le> (q + d) * 100 * eps" by linarith
  have "d * eps \<le> d * 1" using e1 d0 by (rule mult_left_mono)
  then have de: "d * eps \<le> d" by simp
  have "(q + d) * 100 * eps = 100 * d + 100 * (d * eps)"
    by (simp add: d_def algebra_simps)
  with x' de have "\<bar>x - a * 100\<bar> \<le> 200 * d" by linarith
  with a' have "\<bar>x - q * 100\<bar> \<le> 300 * d" by linarith
  then show ?thesis by (simp add: d_def algebra_simps)
qed

lemma float_percent_error:
  assumes "0 \<le> q"
  shows "\<bar>fl (fl q * 100) - q * 100\<bar> \<le> q * 100 * (3 * unit_roundoff)"
  using assms unit_roundoff_bounds fl_relative_error [of q] fl_relative_error [of "fl q * 100"]
  by (rule relative_error_compose)

text \<open>
  C1. On the success path (client configured, both queries go through) the summary's
  \<open>total\<close> is the number of the senior's active medications; with none, the percentage
  is 100. Otherwise it is \<open>round(taken / total * 100, 1)\<close> as Python computes it: with
  \<open>x\<close> the double that \<open>taken / total * 100\<close> yields, which is the exact quotient up to
  a relative error of \<open>3 * unit_roundoff\<close>, and \<open>k / 10\<close> the tenth nearest to \<open>x\<close> (a tie
  going to the even \<open>k\<close>), the percentage is the double nearest to \<open>k / 10\<close>.
\<close>

theorem adherence_percentage:
  fixes cfg :: config and db :: database and net :: net and today :: string
    and senior_id :: int
  assumes "SUPABASE_URL cfg \<noteq> []" and "SUPABASE_ANON_KEY cfg \<noteq> []"
    and "net 0 = None" and "net 1 = None"
  defines "s \<equiv> get_adherence_summary cfg db net today senior_id"
  defines "x \<equiv> fl (fl (of_nat (taken s) / of_nat (total s)) * 100)"
  defines "k \<equiv> round_half_even (x * 10)"
  shows "total s = length (filter (\<lambda>m. m_senior_id m = Some senior_id \<and> m_is_active m)
                             (medications db))
       \<and> (total s = 0 \<longrightarrow> percentage s = PyInt 100)
       \<and> (0 < total s \<longrightarrow>
            percentage s = PyFloat (fl (of_int k / 10))
          \<and> \<bar>of_int k / 10 - x\<bar> \<le> 1 / 20
          \<and> \<bar>x - of_nat (taken s) / of_nat (total s) * 100\<bar>
              \<le> of_nat (taken s) / of_nat (total s) * 100 * (3 * unit_roundoff))"
proof -
  have s: "s = (let total_meds = length (select_active_medications senior_id db);
                    taken_meds = length (select_taken_logs_on today db)
                in \<lparr>total = total_meds, taken = taken_meds,
                    percentage = py_round1 (if total_meds > 0
                        then PyFloat (py_mul (py_truediv taken_meds total_meds) 100)
                        else PyInt 100)\<rparr>)"
    unfolding s_def get_adherence_summary_def
      execute_ok [where net = net and k = 0, OF assms(1,2,3)]
      execute_ok [where net = net and k = 1, OF assms(1,2,4)]
    by (simp add: Let_def)
  have close: "\<bar>of_int k / 10 - x\<bar> \<le> 1 / 20"
  proof -
    have "\<bar>of_int (round_half_even (x * 10)) - x * 10\<bar> \<le> 1 / 2"
      by (rule round_half_even_close)
    then show ?thesis unfolding k_def by (simp add: abs_if field_simps split: if_splits)
  qed
  have err: "\<bar>x - of_nat (taken s) / of_nat (total s) * 100\<bar>
              \<le> of_nat (taken s) / of_nat (total s) * 100 * (3 * unit_roundoff)"
    unfolding x_def by (rule float_percent_error) simp
  have total: "total s = length (filter (\<lambda>m. m_senior_id m = Some senior_id \<and> m_is_active m)
                             (medications db))"
    by (simp add: s Let_def select_active_medications_def)
  have zero: "percentage s = PyInt 100" if "total s = 0"
    using that by (simp add: s Let_def)
  have pos: "percentage s = PyFloat (fl (of_int k / 10))" if "0 < total s"
    using that unfolding k_def x_def
    by (simp add: s Let_def py_mul_def py_truediv_def)
  from total zero pos close err show ?thesis by blast
qed

theorem adherence_percentage_witness:
  "SUPABASE_URL cfg_store \<noteq> [] \<and> SUPABASE_ANON_KEY cfg_store \<noteq> []
   \<and> net_ok 0 = None \<and> net_ok 1 = None
   \<and> get_adherence_summary cfg_store db_eighty net_ok ''2026-11-04'' 1
       = \<lparr>total = 80, taken = 23, percentage = PyFloat (fl (287 / 10))\<rparr>
   \<and> fl (fl (23 / 80) * 100) = 8092405580431359 / 281474976710656
   \<and> get_adherence_summary cfg_store db_two_seniors net_ok ''2026-11-04'' 2
       = \<lparr>total = 3, taken = 2, percentage = PyFloat (fl (667 / 10))\<rparr>"
proof -
  have h: "SUPABASE_URL cfg_store \<noteq> []" "SUPABASE_ANON_KEY cfg_store \<noteq> []"
    "net_ok 0 = None" "net_ok 1 = None"
    by (simp_all add: cfg_store_def cfg_unset_def net_ok_def)
  have t: "total (get_adherence_summary cfg_store db_eighty net_ok ''2026-11-04'' 1) = 80"
    and n: "taken (get_adherence_summary cfg_store db_eighty net_ok ''2026-11-04'' 1) = 23"
    by code_simp+
  have x: "fl (fl (23 / 80) * 100) = 8092405580431359 / 281474976710656"
    by code_simp
  have k: "round_half_even (fl (fl (of_nat 23 / of_nat 80) * 100) * 10) = 287"
    by code_simp
  from adherence_percentage [OF h, of db_eighty "''2026-11-04''" 1]
  have "percentage (get_adherence_summary cfg_store db_eighty net_ok ''2026-11-04'' 1)
          = PyFloat (fl (287 / 10))"
    unfolding t n k by simp
  with t n have ev: "get_adherence_summary cfg_store db_eighty net_ok ''2026-11-04'' 1
       = \<lparr>total = 80, taken = 23, percentage = PyFloat (fl (287 / 10))\<rparr>"
    by (cases "get_adherence_summary cfg_store db_eighty net_ok ''2026-11-04'' 1") simp
  have ev2: "get_adherence_summary cfg_store db_two_seniors net_ok ''2026-11-04'' 2
       = \<lparr>total = 3, taken = 2, percentage = PyFloat (fl (667 / 10))\<rparr>"
    by code_simp
  from h ev x ev2 show ?thesis by simp
qed

text \<open>
  C7. When the client is missing or either query raises, the summary is all zero; its
  percentage is 0, not the 100 of the success path with no medications.
\<close>

theorem adherence_zero_on_failure:
  assumes "SUPABASE_URL cfg = [] \<or> SUPABASE_ANON_KEY cfg = []
           \<or> net 0 \<noteq> None \<or> net 1 \<noteq> None"
  shows "get_adherence_summary cfg db net today senior_id
           = \<lparr>total = 0, taken = 0, percentage = PyInt 0\<rparr>"
  using assms
  unfolding get_adherence_summary_def execute_def supabase_def Let_def
  by (auto split: option.splits sum.splits)

theorem adherence_zero_on_failure_witness:
  "net_down 0 \<noteq> None
   \<and> get_adherence_summary cfg_store db_two_seniors net_down ''2026-11-04'' 7
       = \<lparr>total = 0, taken = 0, percentage = PyInt 0\<rparr>
   \<and> percentage (get_adherence_summary cfg_store db_two_seniors net_ok ''2026-11-04'' 7)
       = PyInt 100"
proof -
  have h: "net_down 0 \<noteq> None" by (simp add: net_down_def)
  have ev: "percentage (get_adherence_summary cfg_store db_two_seniors net_ok ''2026-11-04'' 7)
       = PyInt 100"
    by code_simp
  from adherence_zero_on_failure [of cfg_store net_down db_two_seniors "''2026-11-04''" 7] h
  have "get_adherence_summary cfg_store db_two_seniors net_down ''2026-11-04'' 7
       = \<lparr>total = 0, taken = 0, percentage = PyInt 0\<rparr>"
    by simp
  with h ev show ?thesis by simp
qed

text \<open>
  On the success path \<open>taken\<close> is the number of today's logs with status "taken" in the
  whole table; the senior asked for plays no part in it.
\<close>

lemma adherence_taken_all_seniors:
  assumes "SUPABASE_URL cfg \<noteq> []" and "SUPABASE_ANON_KEY cfg \<noteq> []"
    and "net 0 = None" and "net 1 = None"
  shows "taken (get_adherence_summary cfg db net today senior_id)
           = length (filter (\<lambda>l. l_taken_on l = today \<and> l_status l = ''taken'')
                       (reminder_logs db))"
  unfolding get_adherence_summary_def
    execute_ok [where net = net and k = 0, OF assms(1,2,3)]
    execute_ok [where net = net and k = 1, OF assms(1,2,4)]
  by (simp add: Let_def select_taken_logs_on_def)

text \<open>
  The scenario of one active medication, acknowledged as taken, in a store with no other
  log.
\<close>

lemma adherence_single_medication_scenario:
  "get_adherence_summary cfg_store
     (snd (acknowledge_med cfg_store db_one_medication net_ok ''2026-11-04''
             ''2026-11-04T08:05:00'' \<lparr>medication_id = 7, status = ''taken''\<rparr>))
     net_ok ''2026-11-04'' 1
     = \<lparr>total = 1, taken = 1, percentage = PyFloat 100\<rparr>"
  by code_simp

text \<open>
  C2. The second query of \<open>get_adherence_summary\<close> selects every log of today with
  status "taken", whoever the medication belongs to. For senior 1, with one active
  medication and no log of its own, the two logs of senior 2 are counted.
\<close>

theorem adherence_counts_other_seniors_logs:
  "get_adherence_summary cfg_store db_two_seniors net_ok ''2026-11-04'' 1
     = \<lparr>total = 1, taken = 2, percentage = PyFloat 200\<rparr>"
  by code_simp

subsection \<open>Senior profile fallback\<close>

lemma get_senior_fallback:
  assumes "SUPABASE_URL cfg = [] \<or> SUPABASE_ANON_KEY cfg = [] \<or> net 0 \<noteq> None
           \<or> length (filter (\<lambda>s. s_id s = senior_id) (seniors db)) \<noteq> 1"
  shows "get_senior cfg db net senior_id = fallback_senior"
  using assms
  unfolding get_senior_def execute_def supabase_def single_def select_senior_def
  by (auto split: option.splits sum.splits list.splits)

text \<open>
  C9. With the persistence credentials unset the module builds its in-memory fallback,
  but no endpoint works on it: \<open>get_senior\<close> answers with its own literal record, which
  is not the in-memory one, and acknowledging or deleting answers 500 and changes
  nothing.
\<close>

theorem demo_mode_ignores_in_memory_store:
  "in_memory_fallback cfg_unset
     = Some \<lparr>senior_record = \<lparr>s_id = 1, s_name = ''Demo Senior'',
                               s_emergency_info = ''Call 911 if unconscious.''\<rparr>,
             medication_list = [], reminder_log_list = []\<rparr>
   \<and> get_senior cfg_unset db net 1
       = \<lparr>s_id = 1, s_name = ''Senior User'',
          s_emergency_info = ''Call 911 in case of emergency.''\<rparr>
   \<and> acknowledge_med cfg_unset db net ''2026-11-04'' ''2026-11-04T08:05:00''
        \<lparr>medication_id = 1, status = ''taken''\<rparr>
       = (Inl (HTTPException 500 none_has_no_table), db)
   \<and> delete_medication cfg_unset db net 1 = (Inl (HTTPException 500 none_has_no_table), db)
   \<and> get_medications cfg_unset db net 1 = []"
  by (simp add: in_memory_fallback_def get_senior_def acknowledge_med_def delete_medication_def
        get_medications_def execute_def supabase_def cfg_unset_def fallback_senior_def)

text \<open>
  C10. On the fallback path the record returned has id 1 whatever id was asked for, and
  any two requests that take the fallback path get the same answer.
\<close>

theorem fallback_senior_id_is_1:
  assumes "SUPABASE_URL cfg = [] \<or> SUPABASE_ANON_KEY cfg = [] \<or> net 0 \<noteq> None
           \<or> length (filter (\<lambda>s. s_id s = senior_id) (seniors db)) \<noteq> 1"
  shows "s_id (get_senior cfg db net senior_id) = 1
       \<and> (\<forall>cfg' db' net' other.
            (SUPABASE_URL cfg' = [] \<or> SUPABASE_ANON_KEY cfg' = [] \<or> net' 0 \<noteq> None
             \<or> length (filter (\<lambda>s. s_id s = other) (seniors db')) \<noteq> 1)
            \<longrightarrow> get_senior cfg' db' net' other = get_senior cfg db net senior_id)"
  using assms get_senior_fallback
    get_senior_fallback [where cfg = cfg and net = net and db = db and senior_id = senior_id]
  by (simp add: fallback_senior_def)

theorem fallback_senior_id_is_1_witness:
  "length (filter (\<lambda>s. s_id s = 42) (seniors db_two_seniors)) \<noteq> 1
   \<and> s_id (get_senior cfg_store db_two_seniors net_ok 42) = 1
   \<and> get_senior cfg_unset db_two_seniors net_ok 1
       = get_senior cfg_store db_two_seniors net_ok 42
   \<and> s_name (get_senior cfg_store db_two_seniors net_ok 1) = ''Asha''"
proof -
  have h: "length (filter (\<lambda>s. s_id s = 42) (seniors db_two_seniors)) \<noteq> 1"
    by (simp add: db_two_seniors_def)
  have u: "SUPABASE_URL cfg_unset = []" by (simp add: cfg_unset_def)
  have ev: "s_name (get_senior cfg_store db_two_seniors net_ok 1) = ''Asha''"
    by code_simp
  from fallback_senior_id_is_1 [of cfg_store net_ok 42 db_two_seniors] h
  have "s_id (get_senior cfg_store db_two_seniors net_ok 42) = 1
      \<and> get_senior cfg_unset db_two_seniors net_ok 1
          = get_senior cfg_store db_two_seniors net_ok 42"
    using u by blast
  with h ev show ?thesis by simp
qed

subsection \<open>Soft delete\<close>

lemma update_inactive_frame:
  "reminder_logs (update_inactive med_id db) = reminder_logs db"
  "seniors (update_inactive med_id db) = seniors db"
  "next_log_id (update_inactive med_id db) = next_log_id db"
  by (simp_all add: update_inactive_def)

lemma update_inactive_idem:
  "update_inactive med_id (update_inactive med_id db) = update_inactive med_id db"
  by (simp add: update_inactive_def comp_def)

lemma update_inactive_not_listed:
  assumes "m \<in> set (select_active_medications senior_id (update_inactive med_id db))"
  shows "m_id m \<noteq> med_id"
proof -
  let ?f = "\<lambda>m. if m_id m = med_id then m\<lparr>m_is_active := False\<rparr> else m"
  from assms have "m \<in> ?f ` set (medications db)" and active: "m_is_active m"
    by (simp_all add: select_active_medications_def update_inactive_def)
  then obtain x where x: "m = ?f x" by blast
  show ?thesis
  proof (cases "m_id x = med_id")
    case True
    with x active show ?thesis by simp
  next
    case False
    with x show ?thesis by simp
  qed
qed

lemma get_medications_subset:
  "set (get_medications cfg db net senior_id) \<subseteq> set (select_active_medications senior_id db)"
  by (simp add: get_medications_def execute_def supabase_def split: option.split)

lemma update_inactive_others:
  "filter (\<lambda>m. m_id m \<noteq> med_id) (select_active_medications senior_id (update_inactive med_id db))
     = filter (\<lambda>m. m_id m \<noteq> med_id) (select_active_medications senior_id db)"
proof -
  have "filter (\<lambda>m. m_id m \<noteq> med_id)
          (filter (\<lambda>m. m_senior_id m = Some senior_id \<and> m_is_active m)
             (map (\<lambda>m. if m_id m = med_id then m\<lparr>m_is_active := False\<rparr> else m) ms))
        = filter (\<lambda>m. m_id m \<noteq> med_id)
          (filter (\<lambda>m. m_senior_id m = Some senior_id \<and> m_is_active m) ms)" for ms
    by (induction ms) auto
  then show ?thesis
    by (simp add: select_active_medications_def update_inactive_def)
qed

text \<open>
  C6. When the update goes through, \<open>delete_medication\<close> answers \<open>{"status": "deleted"}\<close>
  whether or not a row has the id, and changes nothing but the \<open>is_active\<close> flag of the
  rows with that id: reminder logs and seniors are as before, no later listing of active
  medications contains the id, the other medications are listed as before, and a second
  delete succeeds and leaves the store as the first left it.
\<close>

theorem soft_delete_frame:
  assumes "SUPABASE_URL cfg \<noteq> []" and "SUPABASE_ANON_KEY cfg \<noteq> []" and "net 0 = None"
  shows "\<exists>db'. delete_medication cfg db net med_id = (Inr Deleted, db')
       \<and> medications db' =
           map (\<lambda>m. if m_id m = med_id then m\<lparr>m_is_active := False\<rparr> else m) (medications db)
       \<and> reminder_logs db' = reminder_logs db
       \<and> seniors db' = seniors db
       \<and> (\<forall>net' senior_id. \<forall>m \<in> set (get_medications cfg db' net' senior_id). m_id m \<noteq> med_id)
       \<and> (\<forall>senior_id. filter (\<lambda>m. m_id m \<noteq> med_id) (get_medications cfg db' net senior_id)
                       = filter (\<lambda>m. m_id m \<noteq> med_id) (get_medications cfg db net senior_id))
       \<and> delete_medication cfg db' net med_id = (Inr Deleted, db')"
proof -
  let ?db' = "update_inactive med_id db"
  have d: "delete_medication cfg x net med_id = (Inr Deleted, update_inactive med_id x)" for x
    unfolding delete_medication_def
      execute_ok [where net = net and k = 0, OF assms]
    by simp
  have listed: "m_id m \<noteq> med_id"
    if "m \<in> set (get_medications cfg ?db' net' senior_id)" for net' senior_id m
    using that get_medications_subset [of cfg ?db' net' senior_id]
      update_inactive_not_listed [of m senior_id med_id db]
    by blast
  have others: "filter (\<lambda>m. m_id m \<noteq> med_id) (get_medications cfg ?db' net senior_id)
                = filter (\<lambda>m. m_id m \<noteq> med_id) (get_medications cfg db net senior_id)"
    for senior_id
    unfolding get_medications_def execute_ok [where net = net and k = 0, OF assms]
    by (simp add: update_inactive_others)
  show ?thesis
  proof (intro exI [of _ ?db'] conjI allI ballI)
    show "delete_medication cfg db net med_id = (Inr Deleted, ?db')" by (rule d)
    show "medications ?db' =
           map (\<lambda>m. if m_id m = med_id then m\<lparr>m_is_active := False\<rparr> else m) (medications db)"
      by (simp add: update_inactive_def)
    show "reminder_logs ?db' = reminder_logs db" by (rule update_inactive_frame)
    show "seniors ?db' = seniors db" by (rule update_inactive_frame)
    show "m_id m \<noteq> med_id" if "m \<in> set (get_medications cfg ?db' net' senior_id)"
      for net' senior_id m using that by (rule listed)
    show "filter (\<lambda>m. m_id m \<noteq> med_id) (get_medications cfg ?db' net senior_id)
                = filter (\<lambda>m. m_id m \<noteq> med_id) (get_medications cfg db net senior_id)"
      for senior_id by (rule others)
    show "delete_medication cfg ?db' net med_id = (Inr Deleted, ?db')"
      using d [of ?db'] by (simp only: update_inactive_idem)
  qed
qed


theorem soft_delete_frame_witness:
  "SUPABASE_URL cfg_store \<noteq> [] \<and> SUPABASE_ANON_KEY cfg_store \<noteq> [] \<and> net_ok 0 = None
   \<and> fst (delete_medication cfg_store db_two_seniors net_ok 2) = Inr Deleted
   \<and> map m_id (get_medications cfg_store db_two_seniors net_ok 2) = [2, 3, 4]
   \<and> map m_id (get_medications cfg_store
         (snd (delete_medication cfg_store db_two_seniors net_ok 2)) net_ok 2) = [3, 4]
   \<and> reminder_logs (snd (delete_medication cfg_store db_two_seniors net_ok 2))
       = reminder_logs db_two_seniors
   \<and> delete_medication cfg_store db_two_seniors net_ok 99 = (Inr Deleted, db_two_seniors)
   \<and> delete_medication cfg_store db_two_seniors net_ok 5 = (Inr Deleted, db_two_seniors)"
proof -
  have h: "SUPABASE_URL cfg_store \<noteq> []" "SUPABASE_ANON_KEY cfg_store \<noteq> []" "net_ok 0 = None"
    by (simp_all add: cfg_store_def cfg_unset_def net_ok_def)
  from soft_delete_frame [where cfg = cfg_store and net = net_ok and db = db_two_seniors
      and med_id = 2, OF h]
  have a: "fst (delete_medication cfg_store db_two_seniors net_ok 2) = Inr Deleted"
    and b: "reminder_logs (snd (delete_medication cfg_store db_two_seniors net_ok 2))
       = reminder_logs db_two_seniors"
    by auto
  have c: "map m_id (get_medications cfg_store db_two_seniors net_ok 2) = [2, 3, 4]"
    by code_simp
  have d: "map m_id (get_medications cfg_store
         (snd (delete_medication cfg_store db_two_seniors net_ok 2)) net_ok 2) = [3, 4]"
    by code_simp
  have e: "delete_medication cfg_store db_two_seniors net_ok 99 = (Inr Deleted, db_two_seniors)"
    by code_simp
  have f: "delete_medication cfg_store db_two_seniors net_ok 5 = (Inr Deleted, db_two_seniors)"
    by code_simp
  from h a b c d e f show ?thesis by simp
qed

subsection \<open>Today's schedule\<close>

lemma fold_update_None:
  "fold (\<lambda>x d. d(key x \<mapsto> x)) xs m k = None \<longleftrightarrow> m k = None \<and> (\<forall>x \<in> set xs. key x \<noteq> k)"
  by (induction xs arbitrary: m) auto

lemma fold_update_Some:
  "fold (\<lambda>x d. d(key x \<mapsto> x)) xs m k = Some v \<Longrightarrow> m k = Some v \<or> (v \<in> set xs \<and> key v = k)"
proof (induction xs arbitrary: m)
  case Nil
  then show ?case by simp
next
  case (Cons x xs)
  from Cons.prems have "fold (\<lambda>x d. d(key x \<mapsto> x)) xs (m(key x \<mapsto> x)) k = Some v"
    by (simp only: fold_simps)
  from Cons.IH [OF this] show ?case
    by (cases "key x = k") auto
qed

lemma logs_by_medication_None:
  "logs_by_medication xs k = None \<longleftrightarrow> (\<forall>l \<in> set xs. l_medication_id l \<noteq> k)"
  by (simp add: logs_by_medication_def fold_update_None)

lemma logs_by_medication_Some:
  "logs_by_medication xs k = Some l \<Longrightarrow> l \<in> set xs \<and> l_medication_id l = k"
  using fold_update_Some [of l_medication_id xs Map.empty k l]
  by (simp add: logs_by_medication_def)

text \<open>
  C4. When the client is missing or either query raises, the schedule is empty. Otherwise
  it has one entry per active medication of the senior, in the store's order; the log of
  an entry is absent exactly when no log of that medication is dated today, and is
  otherwise a stored log of that medication dated today.
\<close>

theorem today_schedule_left_join:
  fixes cfg :: config and db :: database and net :: net and today :: string
    and senior_id :: int
  defines "ok \<equiv> SUPABASE_URL cfg \<noteq> [] \<and> SUPABASE_ANON_KEY cfg \<noteq> []
                 \<and> net 0 = None \<and> net 1 = None"
  defines "result \<equiv> get_today_schedule cfg db net today senior_id"
  shows "(\<not> ok \<longrightarrow> result = [])
       \<and> (ok \<longrightarrow>
            map fst result
              = filter (\<lambda>m. m_senior_id m = Some senior_id \<and> m_is_active m) (medications db)
          \<and> (\<forall>(med, log) \<in> set result.
                case log of
                  None \<Rightarrow> \<forall>l \<in> set (reminder_logs db).
                             \<not> (l_medication_id l = m_id med \<and> l_taken_on l = today)
                | Some l \<Rightarrow> l \<in> set (reminder_logs db)
                             \<and> l_medication_id l = m_id med \<and> l_taken_on l = today))"
proof (intro conjI impI)
  assume "\<not> ok"
  then show "result = []"
    unfolding ok_def result_def get_today_schedule_def execute_def supabase_def
    by (auto split: option.split)
next
  assume ok
  then have h: "SUPABASE_URL cfg \<noteq> []" "SUPABASE_ANON_KEY cfg \<noteq> []"
    and n0: "net 0 = None" and n1: "net 1 = None"
    by (simp_all add: ok_def)
  have r: "result = map (\<lambda>med. (med, logs_by_medication (select_logs_on today db) (m_id med)))
                      (select_active_medications senior_id db)"
    unfolding result_def get_today_schedule_def
      execute_ok [where net = net and k = 0, OF h n0]
      execute_ok [where net = net and k = 1, OF h n1]
    by (simp add: Let_def)
  show "map fst result
          = filter (\<lambda>m. m_senior_id m = Some senior_id \<and> m_is_active m) (medications db)"
    by (simp add: r comp_def select_active_medications_def)
  show "\<forall>(med, log) \<in> set result.
          case log of
            None \<Rightarrow> \<forall>l \<in> set (reminder_logs db).
                       \<not> (l_medication_id l = m_id med \<and> l_taken_on l = today)
          | Some l \<Rightarrow> l \<in> set (reminder_logs db)
                       \<and> l_medication_id l = m_id med \<and> l_taken_on l = today"
  proof (clarify)
    fix med log
    assume "(med, log) \<in> set result"
    then have log: "log = logs_by_medication (select_logs_on today db) (m_id med)"
      by (auto simp: r)
    show "case log of
            None \<Rightarrow> \<forall>l \<in> set (reminder_logs db).
                       \<not> (l_medication_id l = m_id med \<and> l_taken_on l = today)
          | Some l \<Rightarrow> l \<in> set (reminder_logs db)
                       \<and> l_medication_id l = m_id med \<and> l_taken_on l = today"
    proof (cases log)
      case None
      with log have "logs_by_medication (select_logs_on today db) (m_id med) = None"
        by simp
      then have "\<forall>l \<in> set (select_logs_on today db). l_medication_id l \<noteq> m_id med"
        by (simp add: logs_by_medication_None)
      with None show ?thesis by (auto simp: select_logs_on_def)
    next
      case (Some l)
      with log have "logs_by_medication (select_logs_on today db) (m_id med) = Some l"
        by simp
      then have "l \<in> set (select_logs_on today db) \<and> l_medication_id l = m_id med"
        by (rule logs_by_medication_Some)
      with Some show ?thesis by (simp add: select_logs_on_def)
    qed
  qed
qed

theorem today_schedule_left_join_witness:
  "get_today_schedule cfg_store db_two_seniors net_ok ''2026-11-04'' 2
     = [(pill 2 ''Metformin'' 2 True, Some (entry 1 2 ''taken'' ''2026-11-04'')),
        (pill 3 ''Statin'' 2 True, Some (entry 2 3 ''taken'' ''2026-11-04'')),
        (pill 4 ''Atenolol'' 2 True, None)]
   \<and> get_today_schedule cfg_store db_two_seniors net_down ''2026-11-04'' 2 = []
   \<and> get_today_schedule cfg_unset db_two_seniors net_ok ''2026-11-04'' 2 = []"
proof -
  have ev: "get_today_schedule cfg_store db_two_seniors net_ok ''2026-11-04'' 2
     = [(pill 2 ''Metformin'' 2 True, Some (entry 1 2 ''taken'' ''2026-11-04'')),
        (pill 3 ''Statin'' 2 True, Some (entry 2 3 ''taken'' ''2026-11-04'')),
        (pill 4 ''Atenolol'' 2 True, None)]"
    by code_simp
  have "net_down 0 \<noteq> None" by (simp add: net_down_def)
  with today_schedule_left_join [of cfg_store net_down db_two_seniors "''2026-11-04''" 2]
  have a: "get_today_schedule cfg_store db_two_seniors net_down ''2026-11-04'' 2 = []"
    by simp
  have "SUPABASE_URL cfg_unset = []" by (simp add: cfg_unset_def)
  with today_schedule_left_join [of cfg_unset net_ok db_two_seniors "''2026-11-04''" 2]
  have b: "get_today_schedule cfg_unset db_two_seniors net_ok ''2026-11-04'' 2 = []"
    by simp
  from ev a b show ?thesis by simp
qed

subsection \<open>Acknowledgement\<close>

lemma distinct_key_filter:
  "distinct (map f xs) \<Longrightarrow> x \<in> set xs \<Longrightarrow> filter (\<lambda>y. f y = f x) xs = [x]"
proof (induction xs)
  case Nil
  then show ?case by simp
next
  case (Cons a xs)
  show ?case
  proof (cases "x = a")
    case True
    from Cons.prems(1) have "f a \<notin> f ` set xs" by simp
    then have "\<forall>y \<in> set xs. f y \<noteq> f a" by (metis imageI)
    then have "filter (\<lambda>y. f y = f a) xs = []" by (simp add: filter_empty_conv)
    with True show ?thesis by simp
  next
    case False
    with Cons.prems have x: "x \<in> set xs" and "f a \<noteq> f x" by auto
    with Cons.IH Cons.prems(1) show ?thesis by simp
  qed
qed

lemma same_key_eq:
  "same_key mid day = (\<lambda>l. (l_medication_id l, l_taken_on l) = (mid, day))"
  by (auto simp: same_key_def fun_eq_iff)

lemma upsert_existing:
  fixes st ts :: string
  assumes u: "unique_keys (reminder_logs db)"
    and old: "old \<in> set (reminder_logs db)" "same_key mid day old"
  defines "g \<equiv> \<lambda>l. if same_key mid day l then l\<lparr>l_status := st, l_taken_at := ts\<rparr> else l"
  shows "upsert_reminder_log mid st day ts db
           = ([old\<lparr>l_status := st, l_taken_at := ts\<rparr>],
              db\<lparr>reminder_logs := map g (reminder_logs db)\<rparr>)"
    and "unique_keys (map g (reminder_logs db))"
    and "filter (same_key mid day) (map g (reminder_logs db))
           = [old\<lparr>l_status := st, l_taken_at := ts\<rparr>]"
    and "filter (same_key mid day) (reminder_logs db) = [old]"
proof -
  have key: "(l_medication_id (g l), l_taken_on (g l)) = (l_medication_id l, l_taken_on l)" for l
    by (simp add: g_def)
  have sk: "same_key mid day (g l) = same_key mid day l" for l
    by (simp add: g_def same_key_def)
  from old have ex: "list_ex (same_key mid day) (reminder_logs db)"
    by (auto simp: list_ex_iff)
  from old(2) have "(l_medication_id old, l_taken_on old) = (mid, day)"
    by (simp add: same_key_def)
  with distinct_key_filter [OF u [unfolded unique_keys_def] old(1)]
  show f: "filter (same_key mid day) (reminder_logs db) = [old]"
    by (simp add: same_key_eq)
  have "filter (same_key mid day) (map g (reminder_logs db))
          = map g (filter (same_key mid day) (reminder_logs db))"
    by (simp add: filter_map comp_def sk)
  with f old(2) show 3: "filter (same_key mid day) (map g (reminder_logs db))
           = [old\<lparr>l_status := st, l_taken_at := ts\<rparr>]"
    by (simp add: g_def)
  from u show "unique_keys (map g (reminder_logs db))"
    by (simp add: unique_keys_def comp_def key)
  show "upsert_reminder_log mid st day ts db
           = ([old\<lparr>l_status := st, l_taken_at := ts\<rparr>],
              db\<lparr>reminder_logs := map g (reminder_logs db)\<rparr>)"
    using ex 3 by (simp add: upsert_reminder_log_def Let_def g_def)
qed

lemma upsert_fresh:
  fixes st ts :: string
  assumes u: "unique_keys (reminder_logs db)"
    and fresh: "\<forall>l \<in> set (reminder_logs db). \<not> same_key mid day l"
  defines "row \<equiv> \<lparr>l_id = next_log_id db, l_medication_id = mid, l_status = st,
                    l_taken_on = day, l_taken_at = ts\<rparr>"
  shows "upsert_reminder_log mid st day ts db
           = ([row], db\<lparr>reminder_logs := reminder_logs db @ [row],
                         next_log_id := next_log_id db + 1\<rparr>)"
    and "unique_keys (reminder_logs db @ [row])"
    and "filter (same_key mid day) (reminder_logs db @ [row]) = [row]"
proof -
  from fresh have ex: "\<not> list_ex (same_key mid day) (reminder_logs db)"
    by (simp add: list_ex_iff)
  then show "upsert_reminder_log mid st day ts db
           = ([row], db\<lparr>reminder_logs := reminder_logs db @ [row],
                         next_log_id := next_log_id db + 1\<rparr>)"
    by (simp add: upsert_reminder_log_def Let_def row_def)
  from fresh have "(mid, day) \<notin> (\<lambda>l. (l_medication_id l, l_taken_on l)) ` set (reminder_logs db)"
    by (auto simp: same_key_def)
  with u show "unique_keys (reminder_logs db @ [row])"
    by (simp add: unique_keys_def row_def)
  from fresh have "filter (same_key mid day) (reminder_logs db) = []"
    by (simp add: filter_empty_conv)
  then show "filter (same_key mid day) (reminder_logs db @ [row]) = [row]"
    by (simp add: row_def same_key_def)
qed

lemma acknowledge_once:
  assumes h: "SUPABASE_URL cfg \<noteq> []" "SUPABASE_ANON_KEY cfg \<noteq> []" "net 0 = None"
    and u: "unique_keys (reminder_logs db)"
  shows "\<exists>row db'. acknowledge_med cfg db net today now req = (Inr row, db')
       \<and> l_taken_on row = today \<and> l_medication_id row = medication_id req
       \<and> l_status row = status req \<and> l_taken_at row = now
       \<and> unique_keys (reminder_logs db')
       \<and> filter (same_key (medication_id req) today) (reminder_logs db') = [row]
       \<and> (\<forall>old \<in> set (reminder_logs db). same_key (medication_id req) today old \<longrightarrow>
            row = old\<lparr>l_status := status req, l_taken_at := now\<rparr>
          \<and> length (reminder_logs db') = length (reminder_logs db))"
proof -
  let ?mid = "medication_id req"
  let ?up = "upsert_reminder_log ?mid (status req) today now db"
  have a: "acknowledge_med cfg db net today now req =
             (case ?up of (rows, db') \<Rightarrow>
                (case rows of
                   [] \<Rightarrow> (Inl (HTTPException 500 (str_exn (IndexError ''list index out of range''))), db')
                 | row # _ \<Rightarrow> (Inr row, db')))"
    unfolding acknowledge_med_def execute_ok [where net = net and k = 0, OF h]
    by simp
  show ?thesis
  proof (cases "\<exists>old \<in> set (reminder_logs db). same_key ?mid today old")
    case True
    then obtain old where old: "old \<in> set (reminder_logs db)" "same_key ?mid today old"
      by blast
    note e = upsert_existing(1-3) [OF u old, where st = "status req" and ts = now]
      upsert_existing(4) [OF u old]
    let ?row = "old\<lparr>l_status := status req, l_taken_at := now\<rparr>"
    let ?logs = "map (\<lambda>l. if same_key ?mid today l
                            then l\<lparr>l_status := status req, l_taken_at := now\<rparr> else l)
                     (reminder_logs db)"
    have r: "acknowledge_med cfg db net today now req = (Inr ?row, db\<lparr>reminder_logs := ?logs\<rparr>)"
      unfolding a e(1) by simp
    have only: "o' = old" if "o' \<in> set (reminder_logs db)" "same_key ?mid today o'" for o'
    proof -
      from that have "o' \<in> set (filter (same_key ?mid today) (reminder_logs db))" by simp
      then show ?thesis unfolding e(4) by simp
    qed
    show ?thesis
    proof (intro exI [of _ ?row] exI [of _ "db\<lparr>reminder_logs := ?logs\<rparr>"] conjI ballI impI)
      show "acknowledge_med cfg db net today now req = (Inr ?row, db\<lparr>reminder_logs := ?logs\<rparr>)"
        by (rule r)
      show "l_taken_on ?row = today" using old(2) by (simp add: same_key_def)
      show "l_medication_id ?row = medication_id req" using old(2) by (simp add: same_key_def)
      show "l_status ?row = status req" by simp
      show "l_taken_at ?row = now" by simp
      show "unique_keys (reminder_logs (db\<lparr>reminder_logs := ?logs\<rparr>))"
        using e(2) by simp
      show "filter (same_key ?mid today) (reminder_logs (db\<lparr>reminder_logs := ?logs\<rparr>)) = [?row]"
        using e(3) by simp
      show "?row = o'\<lparr>l_status := status req, l_taken_at := now\<rparr>"
        if "o' \<in> set (reminder_logs db)" "same_key ?mid today o'" for o'
        using only [OF that] by simp
      show "length (reminder_logs (db\<lparr>reminder_logs := ?logs\<rparr>)) = length (reminder_logs db)"
        by simp
    qed
  next
    case False
    then have fresh: "\<forall>l \<in> set (reminder_logs db). \<not> same_key ?mid today l" by blast
    note e = upsert_fresh [OF u fresh, where st = "status req" and ts = now]
    let ?row = "\<lparr>l_id = next_log_id db, l_medication_id = ?mid, l_status = status req,
                  l_taken_on = today, l_taken_at = now\<rparr>"
    let ?db' = "db\<lparr>reminder_logs := reminder_logs db @ [?row],
                    next_log_id := next_log_id db + 1\<rparr>"
    have r: "acknowledge_med cfg db net today now req = (Inr ?row, ?db')"
      unfolding a e(1) by simp
    show ?thesis
    proof (intro exI [of _ ?row] exI [of _ ?db'] conjI ballI impI)
      show "acknowledge_med cfg db net today now req = (Inr ?row, ?db')" by (rule r)
      show "l_taken_on ?row = today" "l_medication_id ?row = medication_id req"
        "l_status ?row = status req" "l_taken_at ?row = now"
        by simp_all
      show "unique_keys (reminder_logs ?db')" using e(2) by simp
      show "filter (same_key ?mid today) (reminder_logs ?db') = [?row]" using e(3) by simp
      show "?row = o'\<lparr>l_status := status req, l_taken_at := now\<rparr>"
        if "o' \<in> set (reminder_logs db)" "same_key ?mid today o'" for o'
        using that fresh by blast
      show "length (reminder_logs ?db') = length (reminder_logs db)"
        if "o' \<in> set (reminder_logs db)" "same_key ?mid today o'" for o'
        using that fresh by blast
    qed
  qed
qed


text \<open>
  C5. \<open>AcknowledgeRequest\<close> carries a medication id and a status only; the date of the
  log written is the server's \<open>today\<close>. When the store holds at most one log per
  medication and date and the upsert goes through, it still does afterwards, with exactly
  one log for the acknowledged medication today; a second acknowledgement of the same
  medication on the same date rewrites that log (same row, new status and timestamp) and
  adds none.
\<close>

theorem acknowledge_upsert:
  assumes h: "SUPABASE_URL cfg \<noteq> []" "SUPABASE_ANON_KEY cfg \<noteq> []"
    and n: "net 0 = None" and n': "net' 0 = None"
    and u: "unique_keys (reminder_logs db)"
    and same: "medication_id req' = medication_id req"
  shows "\<exists>row db1 row' db2.
           acknowledge_med cfg db net today now req = (Inr row, db1)
         \<and> l_taken_on row = today \<and> l_medication_id row = medication_id req
         \<and> l_status row = status req \<and> l_taken_at row = now
         \<and> unique_keys (reminder_logs db1)
         \<and> filter (same_key (medication_id req) today) (reminder_logs db1) = [row]
         \<and> acknowledge_med cfg db1 net' today now' req' = (Inr row', db2)
         \<and> row' = row\<lparr>l_status := status req', l_taken_at := now'\<rparr>
         \<and> unique_keys (reminder_logs db2)
         \<and> length (reminder_logs db2) = length (reminder_logs db1)
         \<and> filter (same_key (medication_id req) today) (reminder_logs db2) = [row']"
proof -
  from acknowledge_once [where cfg = cfg and net = net and db = db and today = today
      and now = now and req = req, OF h n u]
  obtain row db1 where
    a1: "acknowledge_med cfg db net today now req = (Inr row, db1)"
    and r1: "l_taken_on row = today" "l_medication_id row = medication_id req"
      "l_status row = status req" "l_taken_at row = now"
    and u1: "unique_keys (reminder_logs db1)"
    and f1: "filter (same_key (medication_id req) today) (reminder_logs db1) = [row]"
    by blast
  from f1 have "row \<in> set (filter (same_key (medication_id req) today) (reminder_logs db1))"
    by simp
  then have mem: "row \<in> set (reminder_logs db1)"
    and sk: "same_key (medication_id req') today row"
    by (simp_all add: same)
  from acknowledge_once [where cfg = cfg and net = net' and db = db1 and today = today
      and now = now' and req = req', OF h n' u1]
  obtain row' db2 where
    a2: "acknowledge_med cfg db1 net' today now' req' = (Inr row', db2)"
    and u2: "unique_keys (reminder_logs db2)"
    and f2: "filter (same_key (medication_id req') today) (reminder_logs db2) = [row']"
    and o2: "\<forall>old \<in> set (reminder_logs db1). same_key (medication_id req') today old \<longrightarrow>
            row' = old\<lparr>l_status := status req', l_taken_at := now'\<rparr>
          \<and> length (reminder_logs db2) = length (reminder_logs db1)"
    by blast
  from o2 mem sk have r2: "row' = row\<lparr>l_status := status req', l_taken_at := now'\<rparr>"
    and len: "length (reminder_logs db2) = length (reminder_logs db1)"
    by blast+
  from a1 r1 u1 f1 a2 r2 u2 len f2 [unfolded same] show ?thesis by blast
qed

theorem acknowledge_upsert_witness:
  "unique_keys (reminder_logs db_two_seniors)
   \<and> acknowledge_med cfg_store db_two_seniors net_ok ''2026-11-04'' ''2026-11-04T09:00:00''
        \<lparr>medication_id = 1, status = ''missed''\<rparr>
       = (Inr \<lparr>l_id = 4, l_medication_id = 1, l_status = ''missed'',
                l_taken_on = ''2026-11-04'', l_taken_at = ''2026-11-04T09:00:00''\<rparr>,
          db_two_seniors\<lparr>reminder_logs := reminder_logs db_two_seniors @
               [\<lparr>l_id = 4, l_medication_id = 1, l_status = ''missed'',
                 l_taken_on = ''2026-11-04'', l_taken_at = ''2026-11-04T09:00:00''\<rparr>],
             next_log_id := 5\<rparr>)
   \<and> map l_status (reminder_logs (snd (acknowledge_med cfg_store
        (snd (acknowledge_med cfg_store db_two_seniors net_ok ''2026-11-04''
               ''2026-11-04T09:00:00'' \<lparr>medication_id = 1, status = ''missed''\<rparr>))
        net_ok ''2026-11-04'' ''2026-11-04T09:30:00''
        \<lparr>medication_id = 1, status = ''taken''\<rparr>)))
       = [''taken'', ''taken'', ''taken'', ''taken'']"
proof -
  have h: "SUPABASE_URL cfg_store \<noteq> []" "SUPABASE_ANON_KEY cfg_store \<noteq> []"
    and n: "net_ok 0 = None"
    by (simp_all add: cfg_store_def cfg_unset_def net_ok_def)
  have u: "unique_keys (reminder_logs db_two_seniors)"
    by (simp add: unique_keys_def db_two_seniors_def entry_def)
  have s: "medication_id \<lparr>medication_id = 1, status = ''taken''\<rparr>
         = medication_id \<lparr>medication_id = 1, status = ''missed''\<rparr>"
    by simp
  have ev1: "acknowledge_med cfg_store db_two_seniors net_ok ''2026-11-04'' ''2026-11-04T09:00:00''
        \<lparr>medication_id = 1, status = ''missed''\<rparr>
       = (Inr \<lparr>l_id = 4, l_medication_id = 1, l_status = ''missed'',
                l_taken_on = ''2026-11-04'', l_taken_at = ''2026-11-04T09:00:00''\<rparr>,
          db_two_seniors\<lparr>reminder_logs := reminder_logs db_two_seniors @
               [\<lparr>l_id = 4, l_medication_id = 1, l_status = ''missed'',
                 l_taken_on = ''2026-11-04'', l_taken_at = ''2026-11-04T09:00:00''\<rparr>],
             next_log_id := 5\<rparr>)"
    by code_simp
  have ev2: "map l_status (reminder_logs (snd (acknowledge_med cfg_store
        (snd (acknowledge_med cfg_store db_two_seniors net_ok ''2026-11-04''
               ''2026-11-04T09:00:00'' \<lparr>medication_id = 1, status = ''missed''\<rparr>))
        net_ok ''2026-11-04'' ''2026-11-04T09:30:00''
        \<lparr>medication_id = 1, status = ''taken''\<rparr>)))
       = [''taken'', ''taken'', ''taken'', ''taken'']"
    by code_simp
  from acknowledge_upsert [where cfg = cfg_store and net = net_ok and net' = net_ok
      and db = db_two_seniors and today = "''2026-11-04''" and now = "''2026-11-04T09:00:00''"
      and now' = "''2026-11-04T09:30:00''"
      and req = "\<lparr>medication_id = 1, status = ''missed''\<rparr>"
      and req' = "\<lparr>medication_id = 1, status = ''taken''\<rparr>", OF h n n u s]
  have "\<exists>row db1. acknowledge_med cfg_store db_two_seniors net_ok ''2026-11-04''
           ''2026-11-04T09:00:00'' \<lparr>medication_id = 1, status = ''missed''\<rparr> = (Inr row, db1)"
    by blast
  with u ev1 ev2 show ?thesis by simp
qed

subsection \<open>Translation pipeline\<close>

text \<open>
  The \<open>except\<close> branch of \<open>translate\<close> that tags the answer "none" is never taken:
  \<open>openai_translate\<close> returns the text it was given when the key is missing or the
  completion fails, and what could make it raise has made \<open>openai_simplify\<close> raise first.
\<close>

lemma translate_never_none:
  assumes "translate cfg ext req = (Inr r, c)"
  shows "provider r \<noteq> ''none''"
  using assms
  unfolding translate_def openai_simplify_def openai_translate_def Let_def
  by (auto split: if_splits prod.splits sum.splits)

text \<open>
  A text of white space only, whatever the script, is refused before any provider is
  called.
\<close>

lemma translate_blank_text:
  "translate cfg ext \<lparr>req_text = [0xA0, 0x20, 0x3000, 0x0A], req_target_lang = ustr ''hi''\<rparr>
     = (Inl (HTTPException 400 ''Text is required.''), [])"
  by (simp add: translate_def strip_def isspace_def Let_def)

text \<open>
  C3. With no language-model key and no translation-provider credentials, the answer is
  the stripped original text, and it is tagged "openai", not "none"; no provider is
  called.
\<close>

theorem translate_no_credentials_tagged_openai:
  "translate cfg_unset ext
     \<lparr>req_text = ustr ''Take one pill'', req_target_lang = ustr ''hi''\<rparr>
     = (Inr \<lparr>translated_text = ustr ''Take one pill'', out_target_lang = ustr ''hi'',
             provider = ''openai'', quality = Some ''senior-simplified''\<rparr>, [])"
  by (simp add: translate_def openai_simplify_def openai_translate_def call_lingo_translate_def
        cfg_unset_def strip_def isspace_def ustr_def Let_def)

text \<open>
  C8. Take a request with non-empty text, and let the language-model client be usable
  when its key is set. The first provider call is the simplification (none without the
  key); the translation provider is then sent the simplified text. When it answers 200
  with a JSON object, the first non-empty of \<open>translation\<close>, \<open>translatedText\<close> and
  \<open>result\<close> is returned tagged "lingo.dev" and the language model is not asked to
  translate. When it is not configured, or answers anything else, the language model is
  asked next and the answer is tagged "openai".
\<close>

theorem translate_lingo_first:
  fixes cfg :: config and ext :: providers and req :: TranslateRequest
  defines "text \<equiv> strip (req_text req)"
    and "target \<equiv> strip (req_target_lang req)"
  defines "simplified \<equiv>
     (if OPENAI_API_KEY cfg = [] then text
      else (case chat_completions ext ''gpt-4o-mini'' (simplify_prompt text) (2 / 10) of
              Inl e \<Rightarrow> text
            | Inr content \<Rightarrow> strip content))"
  defines "c1 \<equiv>
     (if OPENAI_API_KEY cfg = [] then []
      else [ChatCompletion ''gpt-4o-mini'' (simplify_prompt text) (2 / 10)])"
  defines "url \<equiv> ''https://api.lingo.dev/v1/projects/'' @ LINGO_PROJECT_ID cfg @ ''/translate''"
    and "auth \<equiv> ''Bearer '' @ LINGO_API_KEY cfg"
  defines "c2 \<equiv>
     (if LINGO_API_KEY cfg = [] \<or> LINGO_PROJECT_ID cfg = [] then []
      else [LingoPost url auth simplified target])"
  defines "c3 \<equiv>
     (if OPENAI_API_KEY cfg = [] then []
      else [ChatCompletion ''gpt-4o-mini'' (translate_prompt simplified target) (3 / 10)])"
  assumes nonempty: "text \<noteq> []"
    and sdk: "OPENAI_API_KEY cfg = [] \<or> openai_sdk ext"
  shows "(\<forall>data t.
            LINGO_API_KEY cfg \<noteq> [] \<and> LINGO_PROJECT_ID cfg \<noteq> []
            \<and> lingo_post ext url auth simplified target = HttpResponse 200 (Some data)
            \<and> t \<noteq> []
            \<and> (data ''translation'' = Some t
                \<or> \<not> truthy (data ''translation'')
                   \<and> (data ''translatedText'' = Some t
                       \<or> \<not> truthy (data ''translatedText'') \<and> data ''result'' = Some t))
            \<longrightarrow> translate cfg ext req
                  = (Inr \<lparr>translated_text = t, out_target_lang = target,
                          provider = ''lingo.dev'', quality = Some ''senior-simplified''\<rparr>,
                     c1 @ c2))
       \<and> ((LINGO_API_KEY cfg = [] \<or> LINGO_PROJECT_ID cfg = []
            \<or> (\<forall>data. lingo_post ext url auth simplified target = HttpResponse 200 (Some data)
                  \<longrightarrow> \<not> truthy (data ''translation'') \<and> \<not> truthy (data ''translatedText'')
                      \<and> \<not> truthy (data ''result'')))
           \<longrightarrow> (\<exists>r. translate cfg ext req = (Inr r, c1 @ c2 @ c3)
                    \<and> provider r = ''openai''))"
proof (intro conjI allI impI)
  have simp1: "openai_simplify cfg ext text = (Inr simplified, c1)"
    using sdk
    by (auto simp: openai_simplify_def simplified_def c1_def Let_def split: sum.split)
  have tr: "translate cfg ext req =
      (case call_lingo_translate cfg ext simplified target of
         (translation, c2) \<Rightarrow>
           (if truthy translation then
              (Inr \<lparr>translated_text = (case translation of Some t \<Rightarrow> t | None \<Rightarrow> []),
                    out_target_lang = target, provider = ''lingo.dev'',
                    quality = Some ''senior-simplified''\<rparr>, c1 @ c2)
            else
              (case openai_translate cfg ext simplified target of
                 (Inr translation, c3) \<Rightarrow>
                   (Inr \<lparr>translated_text = translation, out_target_lang = target,
                         provider = ''openai'',
                         quality = Some ''senior-simplified''\<rparr>, c1 @ c2 @ c3)
               | (Inl e, c3) \<Rightarrow>
                   (Inr \<lparr>translated_text = text, out_target_lang = target,
                         provider = ''none'', quality = None\<rparr>, c1 @ c2 @ c3))))"
    using nonempty
    unfolding translate_def Let_def text_def [symmetric] target_def [symmetric]
    by (simp add: simp1)
  have clt: "call_lingo_translate cfg ext simplified target =
      (if LINGO_API_KEY cfg = [] \<or> LINGO_PROJECT_ID cfg = [] then (None, [])
       else (case lingo_post ext url auth simplified target of
               HttpRaises e \<Rightarrow> None
             | HttpResponse status_code body \<Rightarrow>
                 (if status_code = 200 then
                    (case body of
                       None \<Rightarrow> None
                     | Some data \<Rightarrow>
                         py_or (py_or (data ''translation'') (data ''translatedText''))
                               (data ''result''))
                  else None),
             [LingoPost url auth simplified target]))"
    unfolding call_lingo_translate_def Let_def url_def auth_def by (rule refl)
  {
    fix data t
    assume a: "LINGO_API_KEY cfg \<noteq> [] \<and> LINGO_PROJECT_ID cfg \<noteq> []
            \<and> lingo_post ext url auth simplified target = HttpResponse 200 (Some data)
            \<and> t \<noteq> []
            \<and> (data ''translation'' = Some t
                \<or> \<not> truthy (data ''translation'')
                   \<and> (data ''translatedText'' = Some t
                       \<or> \<not> truthy (data ''translatedText'') \<and> data ''result'' = Some t))"
    then have pick: "py_or (py_or (data ''translation'') (data ''translatedText''))
                       (data ''result'') = Some t"
      by (auto simp: py_or_def)
    from a have "call_lingo_translate cfg ext simplified target = (Some t, c2)"
      by (simp add: clt c2_def pick)
    with a show "translate cfg ext req
                  = (Inr \<lparr>translated_text = t, out_target_lang = target,
                          provider = ''lingo.dev'', quality = Some ''senior-simplified''\<rparr>,
                     c1 @ c2)"
      by (simp add: tr)
  }
  {
    assume b: "LINGO_API_KEY cfg = [] \<or> LINGO_PROJECT_ID cfg = []
            \<or> (\<forall>data. lingo_post ext url auth simplified target = HttpResponse 200 (Some data)
                  \<longrightarrow> \<not> truthy (data ''translation'') \<and> \<not> truthy (data ''translatedText'')
                      \<and> \<not> truthy (data ''result''))"
    have "\<exists>v. call_lingo_translate cfg ext simplified target = (v, c2) \<and> \<not> truthy v"
    proof (cases "LINGO_API_KEY cfg = [] \<or> LINGO_PROJECT_ID cfg = []")
      case True
      then show ?thesis by (auto simp: clt c2_def)
    next
      case False
      with b have none: "\<And>data. lingo_post ext url auth simplified target
            = HttpResponse 200 (Some data)
          \<Longrightarrow> \<not> truthy (py_or (py_or (data ''translation'') (data ''translatedText''))
                            (data ''result''))"
        by (auto simp: py_or_def)
      show ?thesis
      proof (cases "lingo_post ext url auth simplified target")
        case (HttpRaises e)
        with False show ?thesis
          by (simp add: clt c2_def)
      next
        case (HttpResponse code body)
        show ?thesis
        proof (cases "code = 200 \<and> body \<noteq> None")
          case True
          then obtain data where "body = Some data" by auto
          with True HttpResponse none [of data] False show ?thesis
            by (simp add: clt c2_def)
        next
          case no: False
          with HttpResponse False show ?thesis
            by (auto simp: clt c2_def split: option.split)
        qed
      qed
    qed
    then obtain v where v: "call_lingo_translate cfg ext simplified target = (v, c2)"
      "\<not> truthy v" by blast
    have "\<exists>t. openai_translate cfg ext simplified target = (Inr t, c3)"
      using sdk
      by (auto simp: openai_translate_def c3_def Let_def split: sum.split)
    then obtain t where t: "openai_translate cfg ext simplified target = (Inr t, c3)" by blast
    show "\<exists>r. translate cfg ext req = (Inr r, c1 @ c2 @ c3) \<and> provider r = ''openai''"
      by (simp add: tr v t)
  }
qed


theorem translate_lingo_first_witness:
  "strip (req_text req_demo) \<noteq> [] \<and> openai_sdk ext_demo
   \<and> (\<exists>c. translate cfg_all ext_demo req_demo
            = (Inr \<lparr>translated_text = hindi_reply, out_target_lang = ustr ''hi'',
                    provider = ''lingo.dev'', quality = Some ''senior-simplified''\<rparr>, c))
   \<and> snd (translate cfg_all ext_demo req_demo)
       = [ChatCompletion ''gpt-4o-mini''
            (simplify_prompt (ustr ''Please take one pill now'')) (2 / 10),
          LingoPost ''https://api.lingo.dev/v1/projects/p1/translate'' ''Bearer lingo-key''
            (ustr ''Take one pill now.'') (ustr ''hi'')]
   \<and> (\<exists>r c. translate cfg_all ext_lingo_503 req_demo = (Inr r, c) \<and> provider r = ''openai'')"
proof -
  have h1: "strip (req_text req_demo) \<noteq> []" by code_simp
  have h2: "OPENAI_API_KEY cfg_all = [] \<or> openai_sdk ext_demo"
    and h3: "OPENAI_API_KEY cfg_all = [] \<or> openai_sdk ext_lingo_503"
    by (simp_all add: ext_demo_def ext_lingo_503_def)
  have tg: "strip (req_target_lang req_demo) = ustr ''hi''" by code_simp
  have keys: "LINGO_API_KEY cfg_all \<noteq> []" "LINGO_PROJECT_ID cfg_all \<noteq> []"
    by (simp_all add: cfg_all_def cfg_llm_def cfg_unset_def)
  have t: "hindi_reply \<noteq> []" by (simp add: hindi_reply_def)
  from translate_lingo_first [where cfg = cfg_all and ext = ext_demo and req = req_demo,
      OF h1 h2, THEN conjunct1, rule_format,
      of "[''translation'' \<mapsto> [], ''translatedText'' \<mapsto> hindi_reply]" hindi_reply]
    keys t
  have a: "\<exists>c. translate cfg_all ext_demo req_demo
            = (Inr \<lparr>translated_text = hindi_reply, out_target_lang = ustr ''hi'',
                    provider = ''lingo.dev'', quality = Some ''senior-simplified''\<rparr>, c)"
    by (simp add: ext_demo_def tg)
  from translate_lingo_first [where cfg = cfg_all and ext = ext_lingo_503 and req = req_demo,
      OF h1 h3, THEN conjunct2]
  have b: "\<exists>r c. translate cfg_all ext_lingo_503 req_demo = (Inr r, c) \<and> provider r = ''openai''"
    by (simp add: ext_lingo_503_def) blast
  have c: "snd (translate cfg_all ext_demo req_demo)
       = [ChatCompletion ''gpt-4o-mini''
            (simplify_prompt (ustr ''Please take one pill now'')) (2 / 10),
          LingoPost ''https://api.lingo.dev/v1/projects/p1/translate'' ''Bearer lingo-key''
            (ustr ''Take one pill now.'') (ustr ''hi'')]"
    by code_simp
  from h1 a b c show ?thesis by (simp add: ext_demo_def)
qed

text \<open>
  With a language-model key and no translation-provider credentials the answer is tagged
  "openai"; its text is the stripped reply of the model, or the simplified text when the
  completion fails, and is empty when the model's replies are blank.
\<close>

lemma translate_llm_only:
  assumes "OPENAI_API_KEY cfg \<noteq> []" and "LINGO_API_KEY cfg = [] \<or> LINGO_PROJECT_ID cfg = []"
    and "openai_sdk ext" and "strip (req_text req) \<noteq> []"
  defines "simplified \<equiv>
     (case chat_completions ext ''gpt-4o-mini'' (simplify_prompt (strip (req_text req))) (2 / 10) of
        Inl e \<Rightarrow> strip (req_text req) | Inr content \<Rightarrow> strip content)"
  shows "fst (translate cfg ext req)
           = Inr \<lparr>translated_text =
                   (case chat_completions ext ''gpt-4o-mini''
                           (translate_prompt simplified (strip (req_target_lang req))) (3 / 10) of
                      Inl e \<Rightarrow> simplified | Inr content \<Rightarrow> strip content),
                  out_target_lang = strip (req_target_lang req), provider = ''openai'',
                  quality = Some ''senior-simplified''\<rparr>"
proof -
  let ?text = "strip (req_text req)" and ?target = "strip (req_target_lang req)"
  have s1: "fst (openai_simplify cfg ext ?text) = Inr simplified"
    using assms(1,3) by (simp add: openai_simplify_def simplified_def Let_def split: sum.split)
  have s2: "fst (call_lingo_translate cfg ext simplified ?target) = None"
    using assms(2) by (auto simp: call_lingo_translate_def)
  have s3: "fst (openai_translate cfg ext simplified ?target)
              = Inr (case chat_completions ext ''gpt-4o-mini''
                           (translate_prompt simplified ?target) (3 / 10) of
                      Inl e \<Rightarrow> simplified | Inr content \<Rightarrow> strip content)"
    using assms(1,3) by (simp add: openai_translate_def Let_def split: sum.split)
  obtain c1 where c1: "openai_simplify cfg ext ?text = (Inr simplified, c1)"
    using s1 by (cases "openai_simplify cfg ext ?text") simp
  obtain c2 where c2: "call_lingo_translate cfg ext simplified ?target = (None, c2)"
    using s2 by (cases "call_lingo_translate cfg ext simplified ?target") simp
  obtain c3 where c3: "openai_translate cfg ext simplified ?target
              = (Inr (case chat_completions ext ''gpt-4o-mini''
                           (translate_prompt simplified ?target) (3 / 10) of
                      Inl e \<Rightarrow> simplified | Inr content \<Rightarrow> strip content), c3)"
    using s3 by (cases "openai_translate cfg ext simplified ?target") simp
  show ?thesis
    using assms(4) by (simp add: translate_def Let_def c1 c2 c3)
qed


lemma translate_blank_reply:
  "fst (translate cfg_llm ext_blank req_demo)
     = Inr \<lparr>translated_text = [], out_target_lang = ustr ''hi'', provider = ''openai'',
            quality = Some ''senior-simplified''\<rparr>"
  by code_simp

text \<open>When the key is set and the client cannot be built, the request fails before any call.\<close>

lemma translate_sdk_missing:
  assumes "OPENAI_API_KEY cfg \<noteq> []" and "\<not> openai_sdk ext" and "strip (req_text req) \<noteq> []"
  shows "translate cfg ext req = (Inl (HTTPException 500 ''Internal Server Error''), [])"
  using assms by (simp add: translate_def openai_simplify_def Let_def)

end
